theory Spec2Isabelle
  imports Main "HOL-Library.Word"
begin

unbundle bit_operations_syntax

section \<open>The Samsung EA8074 DSI panel driver\<close>

text \<open>
  A model of \<^verbatim>\<open>drivers/gpu/drm/panel/panel-samsung-ea8074.c\<close>. The driver talks to
  three things outside itself: the DSI link (DCS transfers that return an \<^verbatim>\<open>int\<close>,
  negative on failure), the reset GPIO and the kernel log. Every such effect is appended
  to a trace kept in the driver state, in program order, next to the fields the driver
  itself mutates (\<^verbatim>\<open>ctx->prepared\<close>, \<^verbatim>\<open>dsi->mode_flags\<close>, the level of the reset line).
\<close>

subsection \<open>Data\<close>

type_synonym u8 = "8 word"
type_synonym u16 = "16 word"

text \<open>
  The first byte of a \<^verbatim>\<open>mipi_dsi_dcs_write_seq\<close>: either one of the three names of
  \<^verbatim>\<open>video/mipi_display.h\<close> the driver uses, kept symbolic, or a literal byte.
\<close>

datatype dcs_opcode =
    MIPI_DCS_WRITE_CONTROL_DISPLAY
  | MIPI_DCS_WRITE_POWER_SAVE
  | MIPI_DCS_WRITE_MEMORY_START
  | Opcode u8

datatype tear_mode = MIPI_DSI_DCS_TEAR_MODE_VBLANK

text \<open>One DCS transfer: the \<^verbatim>\<open>mipi_dsi_dcs_*\<close> helper called, with its arguments.\<close>

datatype dcs_cmd =
    Exit_sleep_mode
  | Set_column_address u16 u16
  | Set_page_address u16 u16
  | Set_tear_on tear_mode
  | Write_buffer dcs_opcode "u8 list"
  | Set_display_brightness u16
  | Set_display_on
  | Set_display_off
  | Enter_sleep_mode
  | Set_display_brightness_large u16
  | Get_display_brightness_large

text \<open>
  The effects the trace records. A \<open>Logged\<close> event carries the format string of the
  \<^verbatim>\<open>dev_err\<close> call, written without its trailing newline, and the error code printed.
\<close>

datatype event =
    Gpio_set int
  | Slept_us nat nat
  | Slept_ms nat
  | Sent dcs_cmd
  | Logged string int

text \<open>
  \<^verbatim>\<open>struct samsung_ea8074\<close> together with what its pointers reach: \<open>mode_flags\<close> is
  \<^verbatim>\<open>ctx->dsi->mode_flags\<close> (an \<^verbatim>\<open>unsigned long\<close>), \<open>reset_gpio\<close> the logical value last
  written to \<^verbatim>\<open>ctx->reset_gpio\<close> (1 is reset asserted), \<open>trace\<close> the effects so far.
\<close>

record samsung_ea8074 =
  mode_flags :: "64 word"
  reset_gpio :: int
  prepared :: bool
  trace :: "event list"

text \<open>
  The DSI link is outside the driver: \<open>bus n\<close> is the return value of the \<open>n\<close>-th
  transfer made on the link (counting from 0 over the whole trace), negative when the
  transfer fails.
\<close>

type_synonym bus = "nat \<Rightarrow> int"

fun is_sent :: "event \<Rightarrow> bool" where
  "is_sent (Sent c) = True"
| "is_sent e = False"

fun sent_cmds :: "event list \<Rightarrow> dcs_cmd list" where
  "sent_cmds [] = []"
| "sent_cmds (Sent c # es) = c # sent_cmds es"
| "sent_cmds (e # es) = sent_cmds es"

definition sent :: "samsung_ea8074 \<Rightarrow> nat" where
  "sent s = length (sent_cmds (trace s))"

subsection \<open>Primitive effects\<close>

definition log_event :: "event \<Rightarrow> samsung_ea8074 \<Rightarrow> samsung_ea8074" where
  "log_event e s = s\<lparr>trace := trace s @ [e]\<rparr>"

definition gpiod_set_value_cansleep :: "int \<Rightarrow> samsung_ea8074 \<Rightarrow> samsung_ea8074" where
  "gpiod_set_value_cansleep v s = log_event (Gpio_set v) (s\<lparr>reset_gpio := v\<rparr>)"

definition usleep_range :: "nat \<Rightarrow> nat \<Rightarrow> samsung_ea8074 \<Rightarrow> samsung_ea8074" where
  "usleep_range lo hi s = log_event (Slept_us lo hi) s"

definition msleep :: "nat \<Rightarrow> samsung_ea8074 \<Rightarrow> samsung_ea8074" where
  "msleep ms s = log_event (Slept_ms ms) s"

definition dev_err :: "string \<Rightarrow> int \<Rightarrow> samsung_ea8074 \<Rightarrow> samsung_ea8074" where
  "dev_err msg ret s = log_event (Logged msg ret) s"

definition dcs_transfer :: "bus \<Rightarrow> dcs_cmd \<Rightarrow> samsung_ea8074 \<Rightarrow> int \<times> samsung_ea8074" where
  "dcs_transfer bus c s = (bus (sent s), log_event (Sent c) s)"

subsection \<open>Statements of a command sequence\<close>

text \<open>
  \<^verbatim>\<open>samsung_ea8074_on\<close> and \<^verbatim>\<open>samsung_ea8074_off\<close> are straight-line code made of four
  kinds of statement:
  \<^item> \<open>Call c msg\<close> is
    \<^verbatim>\<open>ret = mipi_dsi_dcs_c(dsi, ...); if (ret < 0) { dev_err(dev, msg, ret); return ret; }\<close>
  \<^item> \<open>Write_seq op ps\<close> is \<^verbatim>\<open>mipi_dsi_dcs_write_seq(dsi, op, ps...);\<close>
  \<^item> \<open>Usleep_range lo hi\<close> is \<^verbatim>\<open>usleep_range(lo, hi);\<close>
  \<^item> \<open>Msleep ms\<close> is \<^verbatim>\<open>msleep(ms);\<close>

  Executing a statement gives \<open>Some ret\<close> when it returns \<open>ret\<close> from the enclosing
  function and \<open>None\<close> when control falls through to the next statement.
\<close>

datatype stmt =
    Call dcs_cmd string
  | Write_seq dcs_opcode "u8 list"
  | Usleep_range nat nat
  | Msleep nat

text \<open>
  Modelled from the spec: the macro \<^verbatim>\<open>mipi_dsi_dcs_write_seq\<close> of
  \<^verbatim>\<open>drm/drm_mipi_dsi.h\<close> is not among the sources. The specification of the command
  sequencer says of every step: send opcode and parameters; on transport error, abort the
  remaining sequence and return the error, annotated for diagnostics. So the macro
  sends the buffer and, when the transfer fails, logs and returns the error from the
  function that uses it.
\<close>

definition mipi_dsi_dcs_write_seq ::
  "bus \<Rightarrow> dcs_opcode \<Rightarrow> u8 list \<Rightarrow> samsung_ea8074 \<Rightarrow> int option \<times> samsung_ea8074" where
  "mipi_dsi_dcs_write_seq bus op ps s =
     (let (ret, s1) = dcs_transfer bus (Write_buffer op ps) s in
      if ret < 0 then (Some ret, dev_err ''sending command failed: %d'' ret s1)
      else (None, s1))"

fun exec :: "bus \<Rightarrow> stmt \<Rightarrow> samsung_ea8074 \<Rightarrow> int option \<times> samsung_ea8074" where
  "exec bus (Call c msg) s =
     (let (ret, s1) = dcs_transfer bus c s in
      if ret < 0 then (Some ret, dev_err msg ret s1)
      else (None, s1))"
| "exec bus (Write_seq op ps) s = mipi_dsi_dcs_write_seq bus op ps s"
| "exec bus (Usleep_range lo hi) s = (None, usleep_range lo hi s)"
| "exec bus (Msleep ms) s = (None, msleep ms s)"

fun block :: "bus \<Rightarrow> stmt list \<Rightarrow> samsung_ea8074 \<Rightarrow> int option \<times> samsung_ea8074" where
  "block bus [] s = (None, s)"
| "block bus (x # xs) s =
     (case exec bus x s of
        (Some ret, s1) \<Rightarrow> (Some ret, s1)
      | (None, s1) \<Rightarrow> block bus xs s1)"

text \<open>A function body that ends in \<^verbatim>\<open>return 0;\<close>.\<close>

definition body_return_0 ::
  "bus \<Rightarrow> stmt list \<Rightarrow> samsung_ea8074 \<Rightarrow> int \<times> samsung_ea8074" where
  "body_return_0 bus xs s =
     (case block bus xs s of
        (Some ret, s1) \<Rightarrow> (ret, s1)
      | (None, s1) \<Rightarrow> (0, s1))"

subsection \<open>The driver\<close>

definition samsung_ea8074_reset :: "samsung_ea8074 \<Rightarrow> samsung_ea8074" where
  "samsung_ea8074_reset s =
     (let s1 = gpiod_set_value_cansleep 0 s;
          s2 = usleep_range 1000 2000 s1;
          s3 = gpiod_set_value_cansleep 1 s2;
          s4 = usleep_range 1000 2000 s3;
          s5 = gpiod_set_value_cansleep 0 s4
      in usleep_range 10000 11000 s5)"

definition on_body :: "stmt list" where
  "on_body =
    [Call Exit_sleep_mode ''Failed to exit sleep mode: %d'',
     Usleep_range 10000 11000,
     Call (Set_column_address 0x0000 0x0437) ''Failed to set column address: %d'',
     Usleep_range 10000 11000,
     Call (Set_page_address 0x0000 0x086f) ''Failed to set page address: %d'',
     Usleep_range 10000 11000,
     Call (Set_tear_on MIPI_DSI_DCS_TEAR_MODE_VBLANK) ''Failed to set tear on: %d'',
     Usleep_range 10000 11000,
     Write_seq MIPI_DCS_WRITE_CONTROL_DISPLAY [0x20],
     Usleep_range 10000 11000,
     Call (Set_display_brightness 0x0000) ''Failed to set display brightness: %d'',
     Usleep_range 10000 11000,
     Write_seq MIPI_DCS_WRITE_POWER_SAVE [0x00],
     Usleep_range 10000 11000,
     Write_seq (Opcode 0xf0) [0x5a, 0x5a],
     Usleep_range 10000 11000,
     Write_seq (Opcode 0xb0) [0x06],
     Usleep_range 10000 11000,
     Write_seq (Opcode 0xef) [0x35],
     Usleep_range 10000 11000,
     Write_seq (Opcode 0xcc) [0x55, 0x12],
     Usleep_range 10000 11000,
     Write_seq (Opcode 0xfc) [0x5a, 0x5a],
     Usleep_range 10000 11000,
     Write_seq (Opcode 0xb0) [0x01],
     Usleep_range 10000 11000,
     Write_seq (Opcode 0xd2) [0x20],
     Usleep_range 10000 11000,
     Write_seq (Opcode 0xb0) [0x05],
     Usleep_range 10000 11000,
     Write_seq (Opcode 0xd2) [0x40],
     Usleep_range 10000 11000,
     Write_seq (Opcode 0xfc) [0xa5, 0xa5],
     Usleep_range 10000 11000,
     Write_seq (Opcode 0xf0) [0xa5, 0xa5],
     Msleep 110,
     Write_seq MIPI_DCS_WRITE_MEMORY_START [],
     Usleep_range 10000 11000,
     Call Set_display_on ''Failed to set display on: %d'',
     Usleep_range 10000 11000,
     Write_seq (Opcode 0xf0) [0x5a, 0x5a],
     Usleep_range 10000 11000,
     Write_seq (Opcode 0xb0) [0x05],
     Usleep_range 10000 11000,
     Write_seq (Opcode 0xb1) [0x40],
     Usleep_range 10000 11000,
     Write_seq (Opcode 0xb0) [0x03],
     Usleep_range 10000 11000,
     Write_seq (Opcode 0xb6) [0xa2],
     Usleep_range 10000 11000,
     Write_seq (Opcode 0xf0) [0xa5, 0xa5],
     Usleep_range 10000 11000,
     Call Set_display_on ''Failed to set display on: %d'',
     Msleep 120]"

definition samsung_ea8074_on :: "bus \<Rightarrow> samsung_ea8074 \<Rightarrow> int \<times> samsung_ea8074" where
  "samsung_ea8074_on bus s = body_return_0 bus on_body s"

definition off_body :: "stmt list" where
  "off_body =
    [Call Set_display_off ''Failed to set display off: %d'',
     Call Enter_sleep_mode ''Failed to enter sleep mode: %d'',
     Msleep 120]"

definition samsung_ea8074_off :: "bus \<Rightarrow> samsung_ea8074 \<Rightarrow> int \<times> samsung_ea8074" where
  "samsung_ea8074_off bus s = body_return_0 bus off_body s"

definition samsung_ea8074_prepare :: "bus \<Rightarrow> samsung_ea8074 \<Rightarrow> int \<times> samsung_ea8074" where
  "samsung_ea8074_prepare bus s =
     (if prepared s then (0, s)
      else
        let s1 = samsung_ea8074_reset s;
            (ret, s2) = samsung_ea8074_on bus s1
        in if ret < 0 then
             let s3 = dev_err ''Failed to initialize panel: %d'' ret s2;
                 s4 = gpiod_set_value_cansleep 1 s3
             in (ret, s4)
           else (0, s2\<lparr>prepared := True\<rparr>))"

definition samsung_ea8074_unprepare :: "bus \<Rightarrow> samsung_ea8074 \<Rightarrow> int \<times> samsung_ea8074" where
  "samsung_ea8074_unprepare bus s =
     (if \<not> prepared s then (0, s)
      else
        let (ret, s1) = samsung_ea8074_off bus s;
            s2 = (if ret < 0 then dev_err ''Failed to un-initialize panel: %d'' ret s1 else s1);
            s3 = gpiod_set_value_cansleep 1 s2
        in (0, s3\<lparr>prepared := False\<rparr>))"

record drm_display_mode =
  clock :: int
  hdisplay :: int
  hsync_start :: int
  hsync_end :: int
  htotal :: int
  vdisplay :: int
  vsync_start :: int
  vsync_end :: int
  vtotal :: int
  width_mm :: int
  height_mm :: int

text \<open>
  The initialiser is written as in the source; all operands are positive, so C's
  truncating \<^verbatim>\<open>/\<close> is \<open>div\<close>.
\<close>

definition samsung_ea8074_mode :: drm_display_mode where
  "samsung_ea8074_mode =
     \<lparr>clock = (1080 + 48 + 16 + 48) * (2160 + 20 + 12 + 28) * 60 div 1000,
      hdisplay = 1080,
      hsync_start = 1080 + 48,
      hsync_end = 1080 + 48 + 16,
      htotal = 1080 + 48 + 16 + 48,
      vdisplay = 2160,
      vsync_start = 2160 + 20,
      vsync_end = 2160 + 20 + 12,
      vtotal = 2160 + 20 + 12 + 28,
      width_mm = 68,
      height_mm = 137\<rparr>"

text \<open>
  The backlight operations. \<open>lpm\<close> is the mask \<^verbatim>\<open>MIPI_DSI_MODE_LPM\<close> of
  \<^verbatim>\<open>drm/drm_mipi_dsi.h\<close>, \<open>bl_brightness\<close> the value of
  \<^verbatim>\<open>backlight_get_brightness(bl)\<close>, which the driver stores in a \<^verbatim>\<open>u16\<close>, and
  \<open>rd n\<close> the value that transfer \<open>n\<close> reads back from the panel into
  \<^verbatim>\<open>u16 brightness\<close>.
\<close>

definition samsung_ea8074_bl_update_status ::
  "64 word \<Rightarrow> bus \<Rightarrow> int \<Rightarrow> samsung_ea8074 \<Rightarrow> int \<times> samsung_ea8074" where
  "samsung_ea8074_bl_update_status lpm bus bl_brightness s =
     (let brightness = (word_of_int bl_brightness :: u16);
          s1 = s\<lparr>mode_flags := mode_flags s AND NOT lpm\<rparr>;
          (ret, s2) = dcs_transfer bus (Set_display_brightness_large brightness) s1
      in if ret < 0 then (ret, s2)
         else (0, s2\<lparr>mode_flags := mode_flags s2 OR lpm\<rparr>))"

definition samsung_ea8074_bl_get_brightness ::
  "64 word \<Rightarrow> bus \<Rightarrow> (nat \<Rightarrow> u16) \<Rightarrow> samsung_ea8074 \<Rightarrow> int \<times> samsung_ea8074" where
  "samsung_ea8074_bl_get_brightness lpm bus rd s =
     (let s1 = s\<lparr>mode_flags := mode_flags s AND NOT lpm\<rparr>;
          brightness = rd (sent s1);
          (ret, s2) = dcs_transfer bus Get_display_brightness_large s1
      in if ret < 0 then (ret, s2)
         else (uint brightness, s2\<lparr>mode_flags := mode_flags s2 OR lpm\<rparr>))"

subsection \<open>Reading a command sequence\<close>

text \<open>
  The rest of the definitions describe runs of the code above; none of them is part of the
  driver. \<open>stmt_cmd\<close> is the transfer a statement makes, with the message logged
  when it fails; \<open>body_cmds\<close> lists the transfers of a body in program order.
\<close>

fun stmt_cmd :: "stmt \<Rightarrow> (dcs_cmd \<times> string) option" where
  "stmt_cmd (Call c msg) = Some (c, msg)"
| "stmt_cmd (Write_seq op ps) = Some (Write_buffer op ps, ''sending command failed: %d'')"
| "stmt_cmd (Usleep_range lo hi) = None"
| "stmt_cmd (Msleep ms) = None"

text \<open>What a statement appends to the trace when it does not fail.\<close>

fun ok_events :: "stmt \<Rightarrow> event list" where
  "ok_events (Call c msg) = [Sent c]"
| "ok_events (Write_seq op ps) = [Sent (Write_buffer op ps)]"
| "ok_events (Usleep_range lo hi) = [Slept_us lo hi]"
| "ok_events (Msleep ms) = [Slept_ms ms]"

fun body_cmds :: "stmt list \<Rightarrow> dcs_cmd list" where
  "body_cmds [] = []"
| "body_cmds (x # xs) = (case stmt_cmd x of Some (c, msg) \<Rightarrow> c # body_cmds xs | None \<Rightarrow> body_cmds xs)"

text \<open>
  What a body appends to the trace when its \<open>k\<close>-th transfer (from 0) is the first
  to fail, with return value \<open>r\<close>.
\<close>

fun fail_events :: "nat \<Rightarrow> int \<Rightarrow> stmt list \<Rightarrow> event list" where
  "fail_events k r [] = []"
| "fail_events k r (x # xs) =
     (case stmt_cmd x of
        None \<Rightarrow> ok_events x @ fail_events k r xs
      | Some (c, msg) \<Rightarrow>
          (case k of 0 \<Rightarrow> [Sent c, Logged msg r]
           | Suc k' \<Rightarrow> Sent c # fail_events k' r xs))"

text \<open>The effects between an earlier state \<open>s\<close> and a later state \<open>s'\<close>.\<close>

definition issued :: "samsung_ea8074 \<Rightarrow> samsung_ea8074 \<Rightarrow> event list" where
  "issued s s' = drop (length (trace s)) (trace s')"

text \<open>
  \<open>precedes P Q xs\<close>: every element of \<open>xs\<close> that satisfies \<open>Q\<close> has an element
  that satisfies \<open>P\<close> strictly before it.
\<close>

definition precedes :: "('a \<Rightarrow> bool) \<Rightarrow> ('a \<Rightarrow> bool) \<Rightarrow> 'a list \<Rightarrow> bool" where
  "precedes P Q xs = (\<forall>j < length xs. Q (xs ! j) \<longrightarrow> (\<exists>i < j. P (xs ! i)))"

fun is_column_address :: "dcs_cmd \<Rightarrow> bool" where
  "is_column_address (Set_column_address a b) = True"
| "is_column_address c = False"

fun is_page_address :: "dcs_cmd \<Rightarrow> bool" where
  "is_page_address (Set_page_address a b) = True"
| "is_page_address c = False"

fun is_memory_start :: "dcs_cmd \<Rightarrow> bool" where
  "is_memory_start (Write_buffer op ps) = (op = MIPI_DCS_WRITE_MEMORY_START)"
| "is_memory_start c = False"

fun is_display_on :: "dcs_cmd \<Rightarrow> bool" where
  "is_display_on Set_display_on = True"
| "is_display_on c = False"

subsection \<open>Concrete links and panels\<close>

text \<open>
  A link whose \<open>k\<close>-th transfer fails with \<^verbatim>\<open>-EIO\<close> (\<open>-5\<close>), a link that never
  fails, and a panel that answers every brightness read with \<open>v\<close>.
\<close>

definition fails_at :: "nat \<Rightarrow> bus" where
  "fails_at k n = (if n = k then - 5 else 0)"

definition healthy_bus :: bus where
  "healthy_bus n = 0"

definition panel_reads :: "u16 \<Rightarrow> nat \<Rightarrow> u16" where
  "panel_reads v n = v"

text \<open>
  A panel as \<^verbatim>\<open>samsung_ea8074_probe\<close> leaves it: reset asserted, not prepared, and
  three mode flags set, among them the low-power-mode flag, taken here as bit 11
  (mask \<open>0x800\<close>). \<open>prepared_panel\<close> is a panel after a successful prepare, with
  the trace started afresh.
\<close>

definition unprepared_panel :: samsung_ea8074 where
  "unprepared_panel = \<lparr>mode_flags = 0xC02, reset_gpio = 1, prepared = False, trace = []\<rparr>"

definition prepared_panel :: samsung_ea8074 where
  "prepared_panel = \<lparr>mode_flags = 0xC02, reset_gpio = 0, prepared = True, trace = []\<rparr>"

section \<open>Runs of a command sequence\<close>

lemma sent_cmds_append: "sent_cmds (es @ fs) = sent_cmds es @ sent_cmds fs"
  by (induction es rule: sent_cmds.induct) simp_all

lemma sent_log_event: "sent (log_event e s) = (if is_sent e then Suc (sent s) else sent s)"
  by (cases e) (simp_all add: sent_def log_event_def sent_cmds_append)

lemma exec_no_cmd:
  "stmt_cmd x = None \<Longrightarrow> exec bus x s = (None, s\<lparr>trace := trace s @ ok_events x\<rparr>)"
  by (cases x) (simp_all add: usleep_range_def msleep_def log_event_def)

lemma exec_cmd_ok:
  "stmt_cmd x = Some (c, msg) \<Longrightarrow> 0 \<le> bus (sent s) \<Longrightarrow>
   exec bus x s = (None, s\<lparr>trace := trace s @ [Sent c]\<rparr>)"
  by (cases x) (auto simp add: mipi_dsi_dcs_write_seq_def dcs_transfer_def log_event_def)

lemma exec_cmd_fail:
  "stmt_cmd x = Some (c, msg) \<Longrightarrow> bus (sent s) < 0 \<Longrightarrow>
   exec bus x s = (Some (bus (sent s)), s\<lparr>trace := trace s @ [Sent c, Logged msg (bus (sent s))]\<rparr>)"
  by (cases x) (auto simp add: mipi_dsi_dcs_write_seq_def dcs_transfer_def log_event_def dev_err_def)

lemma sent_trace_app_nosend:
  "stmt_cmd x = None \<Longrightarrow> sent (s\<lparr>trace := trace s @ ok_events x\<rparr>) = sent s"
  by (cases x) (simp_all add: sent_def sent_cmds_append)

lemma sent_trace_app_send: "sent (s\<lparr>trace := trace s @ [Sent c]\<rparr>) = Suc (sent s)"
  by (simp add: sent_def sent_cmds_append)

lemma block_all_ok:
  "\<forall>j < length (body_cmds xs). 0 \<le> bus (sent s + j) \<Longrightarrow>
   block bus xs s = (None, s\<lparr>trace := trace s @ concat (map ok_events xs)\<rparr>)"
proof (induction xs arbitrary: s)
  case Nil
  then show ?case by simp
next
  case (Cons x xs)
  show ?case
  proof (cases "stmt_cmd x")
    case None
    let ?s1 = "s\<lparr>trace := trace s @ ok_events x\<rparr>"
    from Cons.prems None have "\<forall>j < length (body_cmds xs). 0 \<le> bus (sent ?s1 + j)"
      by (simp add: sent_trace_app_nosend)
    from Cons.IH [OF this] None show ?thesis
      by (simp add: exec_no_cmd)
  next
    case (Some p)
    obtain c msg where p: "p = (c, msg)" by (cases p)
    let ?s1 = "s\<lparr>trace := trace s @ [Sent c]\<rparr>"
    from Cons.prems Some p have ok0: "0 \<le> bus (sent s)" by auto
    from Cons.prems Some p have "\<forall>j < length (body_cmds xs). 0 \<le> bus (sent ?s1 + j)"
      by (auto simp add: sent_trace_app_send)
    from Cons.IH [OF this] Some p ok0 have "block bus (x # xs) s = (None, ?s1\<lparr>trace := trace ?s1 @ concat (map ok_events xs)\<rparr>)"
      by (simp add: exec_cmd_ok)
    moreover have "ok_events x = [Sent c]" using Some p by (cases x) auto
    ultimately show ?thesis by simp
  qed
qed

lemma block_fail_at:
  "k < length (body_cmds xs) \<Longrightarrow> bus (sent s + k) < 0 \<Longrightarrow> \<forall>j < k. 0 \<le> bus (sent s + j) \<Longrightarrow>
   block bus xs s =
     (Some (bus (sent s + k)), s\<lparr>trace := trace s @ fail_events k (bus (sent s + k)) xs\<rparr>)"
proof (induction xs arbitrary: s k)
  case Nil
  then show ?case by simp
next
  case (Cons x xs)
  show ?case
  proof (cases "stmt_cmd x")
    case None
    let ?s1 = "s\<lparr>trace := trace s @ ok_events x\<rparr>"
    have eq: "sent ?s1 = sent s" using None by (rule sent_trace_app_nosend)
    from Cons.prems None have "k < length (body_cmds xs)" by simp
    moreover from Cons.prems have "bus (sent ?s1 + k) < 0" by (simp add: eq)
    moreover from Cons.prems have "\<forall>j < k. 0 \<le> bus (sent ?s1 + j)" by (simp add: eq)
    ultimately have "block bus xs ?s1 =
      (Some (bus (sent ?s1 + k)), ?s1\<lparr>trace := trace ?s1 @ fail_events k (bus (sent ?s1 + k)) xs\<rparr>)"
      by (rule Cons.IH)
    then show ?thesis using None by (simp add: exec_no_cmd eq)
  next
    case (Some p)
    obtain c msg where p: "p = (c, msg)" by (cases p)
    show ?thesis
    proof (cases k)
      case 0
      then show ?thesis using Cons.prems Some p by (simp add: exec_cmd_fail)
    next
      case (Suc k')
      let ?s1 = "s\<lparr>trace := trace s @ [Sent c]\<rparr>"
      have eq: "sent ?s1 = Suc (sent s)" by (rule sent_trace_app_send)
      from Cons.prems Suc have ok0: "0 \<le> bus (sent s)" by auto
      from Cons.prems Some p Suc have "k' < length (body_cmds xs)" by simp
      moreover from Cons.prems Suc have "bus (sent ?s1 + k') < 0" by (simp add: eq)
      moreover from Cons.prems Suc have "\<forall>j < k'. 0 \<le> bus (sent ?s1 + j)" by (auto simp add: eq)
      ultimately have "block bus xs ?s1 =
        (Some (bus (sent ?s1 + k')), ?s1\<lparr>trace := trace ?s1 @ fail_events k' (bus (sent ?s1 + k')) xs\<rparr>)"
        by (rule Cons.IH)
      then show ?thesis using Some p Suc ok0 by (simp add: exec_cmd_ok eq)
    qed
  qed
qed

lemma sent_cmds_ok_events:
  "sent_cmds (concat (map ok_events xs)) = body_cmds xs"
proof (induction xs)
  case Nil
  then show ?case by simp
next
  case (Cons x xs)
  then show ?case by (cases x) (simp_all add: sent_cmds_append)
qed

lemma sent_cmds_fail_events:
  "k < length (body_cmds xs) \<Longrightarrow> sent_cmds (fail_events k r xs) = take (Suc k) (body_cmds xs)"
proof (induction xs arbitrary: k)
  case Nil
  then show ?case by simp
next
  case (Cons x xs)
  then show ?case
    by (cases x; cases k) (simp_all add: sent_cmds_append)
qed

lemma first_failure:
  fixes f :: "nat \<Rightarrow> int"
  shows "(\<forall>j<n. 0 \<le> f j) \<or> (\<exists>k<n. f k < 0 \<and> (\<forall>j<k. 0 \<le> f j))"
proof (induction n)
  case 0
  then show ?case by simp
next
  case (Suc n)
  then show ?case
  proof
    assume ok: "\<forall>j<n. 0 \<le> f j"
    show ?thesis
    proof (cases "0 \<le> f n")
      case True
      with ok show ?thesis by (auto simp add: less_Suc_eq)
    next
      case False
      with ok show ?thesis by auto
    qed
  next
    assume "\<exists>k<n. f k < 0 \<and> (\<forall>j<k. 0 \<le> f j)"
    then show ?thesis by (auto simp add: less_Suc_eq)
  qed
qed

lemma precedes_Nil: "precedes P Q [] = True"
  by (simp add: precedes_def)

lemma precedes_Cons: "precedes P Q (x # xs) = (\<not> Q x \<and> (P x \<or> precedes P Q xs))"
proof
  assume h: "precedes P Q (x # xs)"
  have nq: "\<not> Q x" using h by (auto simp add: precedes_def)
  have "P x \<or> precedes P Q xs"
  proof (cases "P x")
    case True
    then show ?thesis by simp
  next
    case False
    have "precedes P Q xs"
      unfolding precedes_def
    proof (intro allI impI)
      fix j assume j: "j < length xs" and q: "Q (xs ! j)"
      from h j q obtain i where i: "i < Suc j" "P ((x # xs) ! i)"
        unfolding precedes_def by force
      with False obtain i' where "i = Suc i'" by (cases i) auto
      with i show "\<exists>i<j. P (xs ! i)" by auto
    qed
    then show ?thesis by simp
  qed
  with nq show "\<not> Q x \<and> (P x \<or> precedes P Q xs)" by simp
next
  assume h: "\<not> Q x \<and> (P x \<or> precedes P Q xs)"
  show "precedes P Q (x # xs)"
    unfolding precedes_def
  proof (intro allI impI)
    fix j assume j: "j < length (x # xs)" and q: "Q ((x # xs) ! j)"
    from h q obtain j' where j': "j = Suc j'" by (cases j) auto
    from h show "\<exists>i<j. P ((x # xs) ! i)"
    proof (elim conjE disjE)
      assume "P x"
      then show ?thesis using j' by (intro exI [of _ 0]) simp
    next
      assume "precedes P Q xs"
      with j q j' obtain i where "i < j'" "P (xs ! i)"
        unfolding precedes_def by auto
      then show ?thesis using j' by (intro exI [of _ "Suc i"]) simp
    qed
  qed
qed

lemma precedes_take: "precedes P Q xs \<Longrightarrow> precedes P Q (take n xs)"
  unfolding precedes_def
proof (intro allI impI)
  fix j
  assume h: "\<forall>j<length xs. Q (xs ! j) \<longrightarrow> (\<exists>i<j. P (xs ! i))"
    and j: "j < length (take n xs)" and q: "Q (take n xs ! j)"
  from j have jn: "j < n" and jl: "j < length xs" by simp_all
  with h q obtain i where i: "i < j" "P (xs ! i)" by auto
  with jn have "P (take n xs ! i)" by simp
  with i show "\<exists>i<j. P (take n xs ! i)" by blast
qed

section \<open>Power-on and prepare\<close>

lemma reset_effect:
  "samsung_ea8074_reset s = s\<lparr>reset_gpio := 0, trace := trace s @
     [Gpio_set 0, Slept_us 1000 2000, Gpio_set 1, Slept_us 1000 2000, Gpio_set 0,
      Slept_us 10000 11000]\<rparr>"
  by (simp add: samsung_ea8074_reset_def gpiod_set_value_cansleep_def usleep_range_def
      log_event_def)

lemma sent_reset: "sent (samsung_ea8074_reset s) = sent s"
  by (simp add: reset_effect sent_def sent_cmds_append)

lemma length_on_cmds: "length (body_cmds on_body) = 27"
  by (simp add: on_body_def)

lemma on_cmds_eq:
  "body_cmds on_body =
    [Exit_sleep_mode,
     Set_column_address 0x0000 0x0437,
     Set_page_address 0x0000 0x086f,
     Set_tear_on MIPI_DSI_DCS_TEAR_MODE_VBLANK,
     Write_buffer MIPI_DCS_WRITE_CONTROL_DISPLAY [0x20],
     Set_display_brightness 0x0000,
     Write_buffer MIPI_DCS_WRITE_POWER_SAVE [0x00],
     Write_buffer (Opcode 0xf0) [0x5a, 0x5a],
     Write_buffer (Opcode 0xb0) [0x06],
     Write_buffer (Opcode 0xef) [0x35],
     Write_buffer (Opcode 0xcc) [0x55, 0x12],
     Write_buffer (Opcode 0xfc) [0x5a, 0x5a],
     Write_buffer (Opcode 0xb0) [0x01],
     Write_buffer (Opcode 0xd2) [0x20],
     Write_buffer (Opcode 0xb0) [0x05],
     Write_buffer (Opcode 0xd2) [0x40],
     Write_buffer (Opcode 0xfc) [0xa5, 0xa5],
     Write_buffer (Opcode 0xf0) [0xa5, 0xa5],
     Write_buffer MIPI_DCS_WRITE_MEMORY_START [],
     Set_display_on,
     Write_buffer (Opcode 0xf0) [0x5a, 0x5a],
     Write_buffer (Opcode 0xb0) [0x05],
     Write_buffer (Opcode 0xb1) [0x40],
     Write_buffer (Opcode 0xb0) [0x03],
     Write_buffer (Opcode 0xb6) [0xa2],
     Write_buffer (Opcode 0xf0) [0xa5, 0xa5],
     Set_display_on]"
  by (simp add: on_body_def)

lemma on_ok:
  assumes "\<forall>j<27. 0 \<le> bus (sent s + j)"
  shows "samsung_ea8074_on bus s = (0, s\<lparr>trace := trace s @ concat (map ok_events on_body)\<rparr>)"
proof -
  from assms have "\<forall>j < length (body_cmds on_body). 0 \<le> bus (sent s + j)"
    by (simp add: length_on_cmds)
  from block_all_ok [OF this] show ?thesis
    by (simp add: samsung_ea8074_on_def body_return_0_def)
qed

lemma on_fail:
  assumes "k < 27" and "bus (sent s + k) < 0" and "\<forall>j<k. 0 \<le> bus (sent s + j)"
  shows "samsung_ea8074_on bus s =
    (bus (sent s + k), s\<lparr>trace := trace s @ fail_events k (bus (sent s + k)) on_body\<rparr>)"
proof -
  from assms(1) have "k < length (body_cmds on_body)" by (simp add: length_on_cmds)
  from block_fail_at [OF this assms(2) assms(3)] show ?thesis
    by (simp add: samsung_ea8074_on_def body_return_0_def)
qed

lemma on_success_iff:
  "0 \<le> fst (samsung_ea8074_on bus s) \<Longrightarrow> \<forall>j<27. 0 \<le> bus (sent s + j)"
proof (rule ccontr)
  assume ret: "0 \<le> fst (samsung_ea8074_on bus s)" and "\<not> (\<forall>j<27. 0 \<le> bus (sent s + j))"
  with first_failure [of 27 "\<lambda>j. bus (sent s + j)"]
  obtain k where k: "k < 27" "bus (sent s + k) < 0" "\<forall>j<k. 0 \<le> bus (sent s + j)"
    by blast
  from on_fail [OF k] ret k(2) show False by simp
qed

lemma on_issued_prefix:
  "\<exists>n. sent_cmds (issued s (snd (samsung_ea8074_on bus s))) = take n (body_cmds on_body)"
proof -
  from first_failure [of 27 "\<lambda>j. bus (sent s + j)"] show ?thesis
  proof
    assume "\<forall>j<27. 0 \<le> bus (sent s + j)"
    then have "sent_cmds (issued s (snd (samsung_ea8074_on bus s))) = take 27 (body_cmds on_body)"
      by (simp add: on_ok issued_def sent_cmds_ok_events length_on_cmds)
    then show ?thesis ..
  next
    assume "\<exists>k<27. bus (sent s + k) < 0 \<and> (\<forall>j<k. 0 \<le> bus (sent s + j))"
    then obtain k where k: "k < 27" "bus (sent s + k) < 0" "\<forall>j<k. 0 \<le> bus (sent s + j)"
      by blast
    then have "sent_cmds (issued s (snd (samsung_ea8074_on bus s))) = take (Suc k) (body_cmds on_body)"
      by (simp add: on_fail issued_def sent_cmds_fail_events length_on_cmds)
    then show ?thesis ..
  qed
qed

text \<open>
  Claim C2. For every step \<open>k\<close> of the power-on sequence (its 27 transfers, counted
  from 0): when \<^verbatim>\<open>prepare\<close> is called on an unprepared panel and transfer \<open>k\<close> is the
  first to fail, \<^verbatim>\<open>prepare\<close> returns the return value of that transfer, exactly the
  first \<open>k + 1\<close> commands of the sequence have been sent (nothing is sent again, nothing
  is sent after the failure), the last write to the reset line is 1 (asserted), and
  \<open>prepared\<close> is still false.
\<close>

theorem prepare_rollback:
  assumes "\<not> prepared s" and "k < 27" and "bus (sent s + k) < 0"
    and "\<forall>j<k. 0 \<le> bus (sent s + j)"
  shows "fst (samsung_ea8074_prepare bus s) = bus (sent s + k) \<and>
         reset_gpio (snd (samsung_ea8074_prepare bus s)) = 1 \<and>
         last (trace (snd (samsung_ea8074_prepare bus s))) = Gpio_set 1 \<and>
         \<not> prepared (snd (samsung_ea8074_prepare bus s)) \<and>
         sent_cmds (issued s (snd (samsung_ea8074_prepare bus s))) =
           take (Suc k) (body_cmds on_body)"
proof -
  let ?s1 = "samsung_ea8074_reset s"
  let ?r = "bus (sent s + k)"
  have on: "samsung_ea8074_on bus ?s1 =
      (?r, ?s1\<lparr>trace := trace ?s1 @ fail_events k ?r on_body\<rparr>)"
    using on_fail [of k bus ?s1] assms by (simp add: sent_reset)
  have cmds: "sent_cmds (fail_events k ?r on_body) = take (Suc k) (body_cmds on_body)"
    using assms(2) by (simp add: sent_cmds_fail_events length_on_cmds)
  show ?thesis
    using assms(1) assms(3) on cmds
    by (simp add: samsung_ea8074_prepare_def Let_def dev_err_def gpiod_set_value_cansleep_def
        log_event_def issued_def reset_effect sent_cmds_append)
qed

text \<open>The fourth transfer (set tear on) fails on a freshly probed panel.\<close>

theorem prepare_rollback_witness:
  "\<not> prepared unprepared_panel \<and> (3::nat) < 27 \<and>
   fails_at 3 (sent unprepared_panel + 3) < 0 \<and>
   0 \<le> fails_at 3 (sent unprepared_panel + 0) \<and>
   0 \<le> fails_at 3 (sent unprepared_panel + 1) \<and>
   0 \<le> fails_at 3 (sent unprepared_panel + 2) \<and>
   fst (samsung_ea8074_prepare (fails_at 3) unprepared_panel) = - 5 \<and>
   reset_gpio (snd (samsung_ea8074_prepare (fails_at 3) unprepared_panel)) = 1 \<and>
   \<not> prepared (snd (samsung_ea8074_prepare (fails_at 3) unprepared_panel))"
  using prepare_rollback [of unprepared_panel 3 "fails_at 3"]
  by (simp add: unprepared_panel_def fails_at_def sent_def)

text \<open>
  Claim C5. When \<^verbatim>\<open>prepare\<close> is called on an unprepared panel and returns 0, the panel
  is prepared, and a second \<^verbatim>\<open>prepare\<close> right after it returns 0 and leaves the whole
  state as it is, trace included: it makes no transfer and does not write the reset line.
  The commands sent over both calls are the power-on sequence, once.
\<close>

theorem prepare_twice:
  assumes "\<not> prepared s" and "fst (samsung_ea8074_prepare bus s) = 0"
  shows "prepared (snd (samsung_ea8074_prepare bus s)) \<and>
         samsung_ea8074_prepare bus' (snd (samsung_ea8074_prepare bus s)) =
           (0, snd (samsung_ea8074_prepare bus s)) \<and>
         sent_cmds (issued s (snd (samsung_ea8074_prepare bus'
             (snd (samsung_ea8074_prepare bus s))))) = body_cmds on_body"
proof -
  let ?s1 = "samsung_ea8074_reset s"
  obtain ret s2 where on: "samsung_ea8074_on bus ?s1 = (ret, s2)"
    by (cases "samsung_ea8074_on bus ?s1")
  have nonneg: "0 \<le> ret"
  proof (rule ccontr)
    assume "\<not> 0 \<le> ret"
    with assms on show False
      by (simp add: samsung_ea8074_prepare_def Let_def)
  qed
  with on have "\<forall>j<27. 0 \<le> bus (sent ?s1 + j)"
    using on_success_iff [of bus ?s1] by simp
  from on_ok [OF this] on
  have s2: "s2 = ?s1\<lparr>trace := trace ?s1 @ concat (map ok_events on_body)\<rparr>" by simp
  have first: "samsung_ea8074_prepare bus s = (0, s2\<lparr>prepared := True\<rparr>)"
    using assms(1) on nonneg by (simp add: samsung_ea8074_prepare_def Let_def)
  have second: "samsung_ea8074_prepare bus' (s2\<lparr>prepared := True\<rparr>) = (0, s2\<lparr>prepared := True\<rparr>)"
    by (simp add: samsung_ea8074_prepare_def)
  have "sent_cmds (issued s (s2\<lparr>prepared := True\<rparr>)) = body_cmds on_body"
    by (simp add: s2 issued_def reset_effect sent_cmds_append sent_cmds_ok_events)
  with first second show ?thesis by simp
qed

text \<open>Two calls in a row on a freshly probed panel and a link that never fails.\<close>

theorem prepare_twice_witness:
  "\<not> prepared unprepared_panel \<and>
   fst (samsung_ea8074_prepare healthy_bus unprepared_panel) = 0 \<and>
   samsung_ea8074_prepare healthy_bus (snd (samsung_ea8074_prepare healthy_bus unprepared_panel)) =
     (0, snd (samsung_ea8074_prepare healthy_bus unprepared_panel))"
proof -
  have p: "\<not> prepared unprepared_panel" by (simp add: unprepared_panel_def)
  have "\<forall>j<27. 0 \<le> healthy_bus (sent (samsung_ea8074_reset unprepared_panel) + j)"
    by (simp add: healthy_bus_def)
  from on_ok [OF this] p
  have r: "fst (samsung_ea8074_prepare healthy_bus unprepared_panel) = 0"
    by (simp add: samsung_ea8074_prepare_def Let_def)
  from prepare_twice [OF p r, of healthy_bus] p r show ?thesis by simp
qed

text \<open>
  Claim C6. In every run of \<^verbatim>\<open>samsung_ea8074_on\<close>, whatever the link answers, every
  page-address command sent has a column-address command before it, every
  memory-write-start has a page-address command before it, and every display-on has a
  memory-write-start before it. When the run returns without error, all 27 commands
  were sent: the column address second, the page address third, the memory write start
  nineteenth, and the final display-on last.
\<close>

theorem on_ordering:
  "precedes is_column_address is_page_address
     (sent_cmds (issued s (snd (samsung_ea8074_on bus s)))) \<and>
   precedes is_page_address is_memory_start
     (sent_cmds (issued s (snd (samsung_ea8074_on bus s)))) \<and>
   precedes is_memory_start is_display_on
     (sent_cmds (issued s (snd (samsung_ea8074_on bus s)))) \<and>
   (0 \<le> fst (samsung_ea8074_on bus s) \<longrightarrow>
      length (sent_cmds (issued s (snd (samsung_ea8074_on bus s)))) = 27 \<and>
      is_column_address (sent_cmds (issued s (snd (samsung_ea8074_on bus s))) ! 1) \<and>
      is_page_address (sent_cmds (issued s (snd (samsung_ea8074_on bus s))) ! 2) \<and>
      is_memory_start (sent_cmds (issued s (snd (samsung_ea8074_on bus s))) ! 18) \<and>
      is_display_on (sent_cmds (issued s (snd (samsung_ea8074_on bus s))) ! 26) \<and>
      last (sent_cmds (issued s (snd (samsung_ea8074_on bus s)))) =
        sent_cmds (issued s (snd (samsung_ea8074_on bus s))) ! 26)"
proof -
  obtain n where n: "sent_cmds (issued s (snd (samsung_ea8074_on bus s))) = take n (body_cmds on_body)"
    using on_issued_prefix by blast
  have 1: "precedes is_column_address is_page_address (body_cmds on_body)"
    by (simp add: on_cmds_eq precedes_Cons precedes_Nil)
  have 2: "precedes is_page_address is_memory_start (body_cmds on_body)"
    by (simp add: on_cmds_eq precedes_Cons precedes_Nil)
  have 3: "precedes is_memory_start is_display_on (body_cmds on_body)"
    by (simp add: on_cmds_eq precedes_Cons precedes_Nil)
  have 4: "sent_cmds (issued s (snd (samsung_ea8074_on bus s))) = body_cmds on_body"
    if "0 \<le> fst (samsung_ea8074_on bus s)"
  proof -
    from that have "\<forall>j<27. 0 \<le> bus (sent s + j)" by (rule on_success_iff)
    then show ?thesis by (simp add: on_ok issued_def sent_cmds_ok_events)
  qed
  have 5: "length (body_cmds on_body) = 27 \<and>
      is_column_address (body_cmds on_body ! 1) \<and>
      is_page_address (body_cmds on_body ! 2) \<and>
      is_memory_start (body_cmds on_body ! 18) \<and>
      is_display_on (body_cmds on_body ! 26) \<and>
      last (body_cmds on_body) = body_cmds on_body ! 26"
    by (simp add: on_cmds_eq)
  have "precedes is_column_address is_page_address (take n (body_cmds on_body)) \<and>
        precedes is_page_address is_memory_start (take n (body_cmds on_body)) \<and>
        precedes is_memory_start is_display_on (take n (body_cmds on_body))"
    using 1 2 3 by (simp add: precedes_take)
  with n 4 5 show ?thesis by simp
qed

text \<open>The run on a link that never fails.\<close>

theorem on_ordering_witness:
  "0 \<le> fst (samsung_ea8074_on healthy_bus unprepared_panel) \<and>
   is_column_address
     (sent_cmds (issued unprepared_panel (snd (samsung_ea8074_on healthy_bus unprepared_panel))) ! 1) \<and>
   is_page_address
     (sent_cmds (issued unprepared_panel (snd (samsung_ea8074_on healthy_bus unprepared_panel))) ! 2) \<and>
   is_memory_start
     (sent_cmds (issued unprepared_panel (snd (samsung_ea8074_on healthy_bus unprepared_panel))) ! 18) \<and>
   is_display_on
     (last (sent_cmds (issued unprepared_panel
        (snd (samsung_ea8074_on healthy_bus unprepared_panel)))))"
proof -
  have "\<forall>j<27. 0 \<le> healthy_bus (sent unprepared_panel + j)"
    by (simp add: healthy_bus_def)
  from on_ok [OF this]
  have r: "0 \<le> fst (samsung_ea8074_on healthy_bus unprepared_panel)" by simp
  with on_ordering [of unprepared_panel healthy_bus] show ?thesis by simp
qed

text \<open>
  Claim C7. Every column-address command that \<^verbatim>\<open>samsung_ea8074_on\<close> sends covers
  \<open>0..0x0437\<close> and every page-address command covers \<open>0..0x086f\<close>; the upper bounds
  are \<open>hdisplay - 1 = 1079\<close> and \<open>vdisplay - 1 = 2159\<close> of \<open>samsung_ea8074_mode\<close>;
  a run that returns without error has sent both.
\<close>

theorem on_addresses_match_mode:
  "(Set_column_address a b \<in> set (sent_cmds (issued s (snd (samsung_ea8074_on bus s)))) \<longrightarrow>
      a = 0x0000 \<and> b = 0x0437 \<and> uint b = hdisplay samsung_ea8074_mode - 1) \<and>
   (Set_page_address a b \<in> set (sent_cmds (issued s (snd (samsung_ea8074_on bus s)))) \<longrightarrow>
      a = 0x0000 \<and> b = 0x086f \<and> uint b = vdisplay samsung_ea8074_mode - 1) \<and>
   hdisplay samsung_ea8074_mode - 1 = 1079 \<and>
   vdisplay samsung_ea8074_mode - 1 = 2159 \<and>
   (0 \<le> fst (samsung_ea8074_on bus s) \<longrightarrow>
      Set_column_address 0x0000 0x0437 \<in> set (sent_cmds (issued s (snd (samsung_ea8074_on bus s)))) \<and>
      Set_page_address 0x0000 0x086f \<in> set (sent_cmds (issued s (snd (samsung_ea8074_on bus s)))))"
proof -
  obtain n where n: "sent_cmds (issued s (snd (samsung_ea8074_on bus s))) = take n (body_cmds on_body)"
    using on_issued_prefix by blast
  have col: "Set_column_address a b \<in> set (body_cmds on_body) \<Longrightarrow> a = 0x0000 \<and> b = 0x0437"
    by (simp add: on_cmds_eq)
  have page: "Set_page_address a b \<in> set (body_cmds on_body) \<Longrightarrow> a = 0x0000 \<and> b = 0x086f"
    by (simp add: on_cmds_eq)
  have sub: "set (take n (body_cmds on_body)) \<subseteq> set (body_cmds on_body)"
    by (rule set_take_subset)
  have 1: "Set_column_address a b \<in> set (take n (body_cmds on_body)) \<longrightarrow>
      a = 0x0000 \<and> b = 0x0437 \<and> uint b = hdisplay samsung_ea8074_mode - 1"
    using col sub by (auto simp add: samsung_ea8074_mode_def)
  have 2: "Set_page_address a b \<in> set (take n (body_cmds on_body)) \<longrightarrow>
      a = 0x0000 \<and> b = 0x086f \<and> uint b = vdisplay samsung_ea8074_mode - 1"
    using page sub by (auto simp add: samsung_ea8074_mode_def)
  have 3: "hdisplay samsung_ea8074_mode - 1 = 1079 \<and> vdisplay samsung_ea8074_mode - 1 = 2159"
    by (simp add: samsung_ea8074_mode_def)
  have 4: "0 \<le> fst (samsung_ea8074_on bus s) \<longrightarrow>
      Set_column_address 0x0000 0x0437 \<in> set (sent_cmds (issued s (snd (samsung_ea8074_on bus s)))) \<and>
      Set_page_address 0x0000 0x086f \<in> set (sent_cmds (issued s (snd (samsung_ea8074_on bus s))))"
  proof
    assume "0 \<le> fst (samsung_ea8074_on bus s)"
    then have "\<forall>j<27. 0 \<le> bus (sent s + j)" by (rule on_success_iff)
    then have "sent_cmds (issued s (snd (samsung_ea8074_on bus s))) = body_cmds on_body"
      by (simp add: on_ok issued_def sent_cmds_ok_events)
    then show "Set_column_address 0x0000 0x0437 \<in> set (sent_cmds (issued s (snd (samsung_ea8074_on bus s)))) \<and>
      Set_page_address 0x0000 0x086f \<in> set (sent_cmds (issued s (snd (samsung_ea8074_on bus s))))"
      by (simp add: on_cmds_eq)
  qed
  from 1 2 3 4 show ?thesis unfolding n [symmetric] by blast
qed

text \<open>The run on a link that never fails sends both commands.\<close>

theorem on_addresses_match_mode_witness:
  "0 \<le> fst (samsung_ea8074_on healthy_bus unprepared_panel) \<and>
   Set_column_address 0x0000 0x0437
     \<in> set (sent_cmds (issued unprepared_panel
          (snd (samsung_ea8074_on healthy_bus unprepared_panel)))) \<and>
   uint (0x0437 :: u16) = hdisplay samsung_ea8074_mode - 1 \<and>
   Set_page_address 0x0000 0x086f
     \<in> set (sent_cmds (issued unprepared_panel
          (snd (samsung_ea8074_on healthy_bus unprepared_panel)))) \<and>
   uint (0x086f :: u16) = vdisplay samsung_ea8074_mode - 1"
proof -
  have "\<forall>j<27. 0 \<le> healthy_bus (sent unprepared_panel + j)"
    by (simp add: healthy_bus_def)
  from on_ok [OF this]
  have r: "0 \<le> fst (samsung_ea8074_on healthy_bus unprepared_panel)" by simp
  from on_addresses_match_mode [of 0 "0x0437" unprepared_panel healthy_bus]
    on_addresses_match_mode [of 0 "0x086f" unprepared_panel healthy_bus] r
  show ?thesis by simp
qed

text \<open>
  Claim C10. In a run of \<^verbatim>\<open>samsung_ea8074_on\<close> in which no transfer fails, display-on
  is sent exactly twice: as the command right after the memory write start, and as the
  last command, after which only the 120 ms sleep follows.
\<close>

theorem on_display_on_twice:
  assumes "\<forall>j<27. 0 \<le> bus (sent s + j)"
  shows "fst (samsung_ea8074_on bus s) = 0 \<and>
         length (sent_cmds (issued s (snd (samsung_ea8074_on bus s)))) = 27 \<and>
         count_list (sent_cmds (issued s (snd (samsung_ea8074_on bus s)))) Set_display_on = 2 \<and>
         sent_cmds (issued s (snd (samsung_ea8074_on bus s))) ! 18 =
           Write_buffer MIPI_DCS_WRITE_MEMORY_START [] \<and>
         sent_cmds (issued s (snd (samsung_ea8074_on bus s))) ! 19 = Set_display_on \<and>
         sent_cmds (issued s (snd (samsung_ea8074_on bus s))) ! 26 = Set_display_on \<and>
         drop (length (issued s (snd (samsung_ea8074_on bus s))) - 2)
           (issued s (snd (samsung_ea8074_on bus s))) = [Sent Set_display_on, Slept_ms 120]"
proof -
  have run: "samsung_ea8074_on bus s = (0, s\<lparr>trace := trace s @ concat (map ok_events on_body)\<rparr>)"
    using assms by (rule on_ok)
  have cmds: "length (body_cmds on_body) = 27 \<and>
      count_list (body_cmds on_body) Set_display_on = 2 \<and>
      body_cmds on_body ! 18 = Write_buffer MIPI_DCS_WRITE_MEMORY_START [] \<and>
      body_cmds on_body ! 19 = Set_display_on \<and>
      body_cmds on_body ! 26 = Set_display_on"
    by (simp add: on_cmds_eq)
  have tl: "drop (length (concat (map ok_events on_body)) - 2) (concat (map ok_events on_body)) =
      [Sent Set_display_on, Slept_ms 120]"
    by (simp add: on_body_def)
  show ?thesis
    using cmds tl by (simp add: run issued_def sent_cmds_ok_events)
qed

text \<open>The run on a link that never fails.\<close>

theorem on_display_on_twice_witness:
  "fst (samsung_ea8074_on healthy_bus unprepared_panel) = 0 \<and>
   count_list (sent_cmds (issued unprepared_panel
     (snd (samsung_ea8074_on healthy_bus unprepared_panel)))) Set_display_on = 2 \<and>
   sent_cmds (issued unprepared_panel
     (snd (samsung_ea8074_on healthy_bus unprepared_panel))) ! 19 = Set_display_on \<and>
   drop (length (issued unprepared_panel
       (snd (samsung_ea8074_on healthy_bus unprepared_panel))) - 2)
     (issued unprepared_panel (snd (samsung_ea8074_on healthy_bus unprepared_panel))) =
     [Sent Set_display_on, Slept_ms 120]"
  using on_display_on_twice [of healthy_bus unprepared_panel]
  by (simp add: healthy_bus_def)

section \<open>Power-off and unprepare\<close>

lemma length_off_cmds: "length (body_cmds off_body) = 2"
  by (simp add: off_body_def)

lemma off_extends:
  "\<exists>es. snd (samsung_ea8074_off bus s) = s\<lparr>trace := trace s @ es\<rparr>"
proof -
  from first_failure [of 2 "\<lambda>j. bus (sent s + j)"] show ?thesis
  proof
    assume "\<forall>j<2. 0 \<le> bus (sent s + j)"
    then have "\<forall>j < length (body_cmds off_body). 0 \<le> bus (sent s + j)"
      by (simp add: length_off_cmds)
    from block_all_ok [OF this]
    have "snd (samsung_ea8074_off bus s) = s\<lparr>trace := trace s @ concat (map ok_events off_body)\<rparr>"
      by (simp add: samsung_ea8074_off_def body_return_0_def)
    then show ?thesis ..
  next
    assume "\<exists>k<2. bus (sent s + k) < 0 \<and> (\<forall>j<k. 0 \<le> bus (sent s + j))"
    then obtain k where k: "k < length (body_cmds off_body)" "bus (sent s + k) < 0"
      "\<forall>j<k. 0 \<le> bus (sent s + j)"
      by (auto simp add: length_off_cmds)
    from block_fail_at [OF k]
    have "snd (samsung_ea8074_off bus s) =
        s\<lparr>trace := trace s @ fail_events k (bus (sent s + k)) off_body\<rparr>"
      by (simp add: samsung_ea8074_off_def body_return_0_def)
    then show ?thesis ..
  qed
qed

lemma off_first_step_fails:
  assumes "bus (sent s) < 0"
  shows "samsung_ea8074_off bus s =
    (bus (sent s), s\<lparr>trace := trace s @
       [Sent Set_display_off, Logged ''Failed to set display off: %d'' (bus (sent s))]\<rparr>)"
proof -
  have "0 < length (body_cmds off_body)" by (simp add: length_off_cmds)
  moreover from assms have "bus (sent s + 0) < 0" by simp
  moreover have "\<forall>j<0. 0 \<le> bus (sent s + j)" by simp
  ultimately have "block bus off_body s =
      (Some (bus (sent s + 0)), s\<lparr>trace := trace s @ fail_events 0 (bus (sent s + 0)) off_body\<rparr>)"
    by (rule block_fail_at)
  then show ?thesis
    by (simp add: samsung_ea8074_off_def body_return_0_def off_body_def)
qed

text \<open>
  Claim C3, as stated, fails: on a prepared panel whose display-off transfer fails with
  \<open>-5\<close>, the power-off sequence returns \<open>-5\<close> and \<^verbatim>\<open>unprepare\<close> returns 0.
\<close>

theorem unprepare_error_not_returned:
  "prepared prepared_panel \<and>
   fst (samsung_ea8074_off (fails_at 0) prepared_panel) = - 5 \<and>
   fst (samsung_ea8074_unprepare (fails_at 0) prepared_panel) = 0"
  using off_first_step_fails [of "fails_at 0" prepared_panel]
  by (simp add: samsung_ea8074_unprepare_def prepared_panel_def fails_at_def sent_def)

text \<open>
  Claim C3, amended. \<^verbatim>\<open>unprepare\<close> returns 0 on every path, whatever the link
  answers and whether or not the panel is prepared: its result never carries an error.
  On an unprepared panel it changes nothing. On a prepared panel it ends with the reset
  line asserted (the last effect is the write of 1) and the panel unprepared, whether
  the power-off sequence failed or not. When the power-off sequence fails, the failure
  is logged with its error code (\<^verbatim>\<open>Failed to un-initialize panel\<close>): the error is
  reported in the log, not in the result.
\<close>

theorem unprepare_logs_failure:
  "fst (samsung_ea8074_unprepare bus s) = 0 \<and>
   (\<not> prepared s \<longrightarrow> snd (samsung_ea8074_unprepare bus s) = s) \<and>
   (prepared s \<longrightarrow>
      reset_gpio (snd (samsung_ea8074_unprepare bus s)) = 1 \<and>
      last (trace (snd (samsung_ea8074_unprepare bus s))) = Gpio_set 1 \<and>
      \<not> prepared (snd (samsung_ea8074_unprepare bus s))) \<and>
   (prepared s \<and> fst (samsung_ea8074_off bus s) < 0 \<longrightarrow>
      Logged ''Failed to un-initialize panel: %d'' (fst (samsung_ea8074_off bus s))
        \<in> set (issued s (snd (samsung_ea8074_unprepare bus s))))"
proof -
  obtain es where es: "snd (samsung_ea8074_off bus s) = s\<lparr>trace := trace s @ es\<rparr>"
    using off_extends by blast
  obtain ret s1 where off: "samsung_ea8074_off bus s = (ret, s1)"
    by (cases "samsung_ea8074_off bus s")
  with es have s1: "s1 = s\<lparr>trace := trace s @ es\<rparr>" by simp
  have ret0: "fst (samsung_ea8074_unprepare bus s) = 0"
    using off by (simp add: samsung_ea8074_unprepare_def Let_def)
  have idle: "\<not> prepared s \<longrightarrow> snd (samsung_ea8074_unprepare bus s) = s"
    by (simp add: samsung_ea8074_unprepare_def)
  have down: "prepared s \<longrightarrow>
      reset_gpio (snd (samsung_ea8074_unprepare bus s)) = 1 \<and>
      last (trace (snd (samsung_ea8074_unprepare bus s))) = Gpio_set 1 \<and>
      \<not> prepared (snd (samsung_ea8074_unprepare bus s))"
    using off
    by (simp add: samsung_ea8074_unprepare_def Let_def gpiod_set_value_cansleep_def
        log_event_def)
  have logged: "prepared s \<and> fst (samsung_ea8074_off bus s) < 0 \<longrightarrow>
      Logged ''Failed to un-initialize panel: %d'' (fst (samsung_ea8074_off bus s))
        \<in> set (issued s (snd (samsung_ea8074_unprepare bus s)))"
    using off s1
    by (simp add: samsung_ea8074_unprepare_def dev_err_def gpiod_set_value_cansleep_def
        log_event_def issued_def)
  from ret0 idle down logged show ?thesis by blast
qed

text \<open>The second transfer (enter sleep mode) fails on a prepared panel.\<close>

theorem unprepare_logs_failure_witness:
  "prepared prepared_panel \<and>
   fst (samsung_ea8074_off (fails_at 1) prepared_panel) < 0 \<and>
   fst (samsung_ea8074_unprepare (fails_at 1) prepared_panel) = 0 \<and>
   Logged ''Failed to un-initialize panel: %d'' (- 5)
     \<in> set (issued prepared_panel (snd (samsung_ea8074_unprepare (fails_at 1) prepared_panel))) \<and>
   reset_gpio (snd (samsung_ea8074_unprepare (fails_at 1) prepared_panel)) = 1 \<and>
   \<not> prepared (snd (samsung_ea8074_unprepare (fails_at 1) prepared_panel))"
proof -
  have p: "prepared prepared_panel" by (simp add: prepared_panel_def)
  have off: "fst (samsung_ea8074_off (fails_at 1) prepared_panel) = - 5"
    by (simp add: samsung_ea8074_off_def body_return_0_def off_body_def dcs_transfer_def
        log_event_def dev_err_def msleep_def prepared_panel_def fails_at_def sent_def)
  then have neg: "fst (samsung_ea8074_off (fails_at 1) prepared_panel) < 0" by simp
  from unprepare_logs_failure [of "fails_at 1" prepared_panel] p neg off
  show ?thesis by simp
qed

text \<open>
  Claim C4. When \<^verbatim>\<open>unprepare\<close> is called on a prepared panel and the first transfer
  of the power-off sequence (display off) fails, then on return the reset line is
  asserted (its last write is 1), \<open>prepared\<close> is false, and display-off is the only
  command that was sent.
\<close>

theorem unprepare_best_effort:
  assumes "prepared s" and "bus (sent s) < 0"
  shows "reset_gpio (snd (samsung_ea8074_unprepare bus s)) = 1 \<and>
         last (trace (snd (samsung_ea8074_unprepare bus s))) = Gpio_set 1 \<and>
         \<not> prepared (snd (samsung_ea8074_unprepare bus s)) \<and>
         sent_cmds (issued s (snd (samsung_ea8074_unprepare bus s))) = [Set_display_off]"
  using assms off_first_step_fails [of bus s]
  by (simp add: samsung_ea8074_unprepare_def dev_err_def gpiod_set_value_cansleep_def
      log_event_def issued_def)

text \<open>Display-off fails on a prepared panel.\<close>

theorem unprepare_best_effort_witness:
  "prepared prepared_panel \<and> fails_at 0 (sent prepared_panel) < 0 \<and>
   reset_gpio (snd (samsung_ea8074_unprepare (fails_at 0) prepared_panel)) = 1 \<and>
   \<not> prepared (snd (samsung_ea8074_unprepare (fails_at 0) prepared_panel))"
  using unprepare_best_effort [of prepared_panel "fails_at 0"]
  by (simp add: prepared_panel_def fails_at_def sent_def)

section \<open>The display mode\<close>

text \<open>
  Claim C8. The \<open>clock\<close> field of the mode is \<open>htotal * vtotal * 60 / 1000\<close> of the
  same record, with \<open>htotal = 1080 + 48 + 16 + 48\<close> and \<open>vtotal = 2160 + 20 + 12 + 28\<close>,
  that is 158774 kHz; the product before the division is below \<open>2 ^ 31\<close>, so the C
  \<^verbatim>\<open>int\<close> arithmetic of the initialiser does not overflow.
\<close>

theorem mode_clock_derived:
  "clock samsung_ea8074_mode =
     htotal samsung_ea8074_mode * vtotal samsung_ea8074_mode * 60 div 1000 \<and>
   htotal samsung_ea8074_mode = 1080 + 48 + 16 + 48 \<and>
   vtotal samsung_ea8074_mode = 2160 + 20 + 12 + 28 \<and>
   clock samsung_ea8074_mode = 158774 \<and>
   htotal samsung_ea8074_mode * vtotal samsung_ea8074_mode * 60 < 2 ^ 31"
  by (simp add: samsung_ea8074_mode_def)

section \<open>Backlight\<close>

text \<open>
  Claim C9, as stated, fails: when the read succeeds and the panel answers \<open>0x0400\<close>,
  \<^verbatim>\<open>samsung_ea8074_bl_get_brightness\<close> returns 1024.
\<close>

theorem bl_get_brightness_above_1023:
  "0 \<le> healthy_bus (sent unprepared_panel) \<and>
   fst (samsung_ea8074_bl_get_brightness 0x800 healthy_bus (panel_reads 0x0400) unprepared_panel)
     = 1024"
  by (simp add: samsung_ea8074_bl_get_brightness_def dcs_transfer_def healthy_bus_def
      panel_reads_def Let_def)

text \<open>
  Claim C9, amended. \<^verbatim>\<open>samsung_ea8074_bl_get_brightness\<close> returns either the negative
  return value of the failed read, or, when the read succeeds, the 16-bit value read
  from the panel as it is, an integer in \<open>[0, 65535]\<close>.
\<close>

theorem bl_get_brightness_result:
  "(bus (sent s) < 0 \<and> fst (samsung_ea8074_bl_get_brightness lpm bus rd s) = bus (sent s)) \<or>
   (0 \<le> bus (sent s) \<and>
    fst (samsung_ea8074_bl_get_brightness lpm bus rd s) = uint (rd (sent s)) \<and>
    0 \<le> fst (samsung_ea8074_bl_get_brightness lpm bus rd s) \<and>
    fst (samsung_ea8074_bl_get_brightness lpm bus rd s) \<le> 65535)"
proof -
  have s: "sent (s\<lparr>mode_flags := mode_flags s AND NOT lpm\<rparr>) = sent s"
    by (simp add: sent_def)
  have "uint (rd (sent s)) < 2 ^ 16"
    using uint_bounded [of "rd (sent s)"] by simp
  then have "uint (rd (sent s)) \<le> 65535" by simp
  then show ?thesis
    by (simp add: samsung_ea8074_bl_get_brightness_def dcs_transfer_def Let_def s)
qed

text \<open>
  Claim C1 does not hold of the code. On a probed panel, whose low-power-mode flag is
  set, a failing brightness transfer makes both \<^verbatim>\<open>samsung_ea8074_bl_update_status\<close> and
  \<^verbatim>\<open>samsung_ea8074_bl_get_brightness\<close> return the error before the flag is set again:
  the flag is clear after the call.
\<close>

theorem bl_lpm_flag_lost_on_failure:
  "mode_flags unprepared_panel AND 0x800 = 0x800 \<and>
   fst (samsung_ea8074_bl_update_status 0x800 (fails_at 0) 512 unprepared_panel) = - 5 \<and>
   mode_flags (snd (samsung_ea8074_bl_update_status 0x800 (fails_at 0) 512 unprepared_panel))
     AND 0x800 = 0 \<and>
   fst (samsung_ea8074_bl_get_brightness 0x800 (fails_at 0) (panel_reads 512) unprepared_panel)
     = - 5 \<and>
   mode_flags (snd (samsung_ea8074_bl_get_brightness 0x800 (fails_at 0) (panel_reads 512)
     unprepared_panel)) AND 0x800 = 0"
  by (simp add: samsung_ea8074_bl_update_status_def samsung_ea8074_bl_get_brightness_def
      dcs_transfer_def fails_at_def unprepared_panel_def sent_def log_event_def Let_def)

end
